theory Spec2Isabelle
  imports Main
begin

text \<open>
  A model of \<open>jupyter_console/ptshell.py\<close>: the completion adapter
  \<open>IPythonPTCompleter\<close> and the shell \<open>PTInteractiveShell\<close> (history preload, the Enter
  key binding, \<open>pre_prompt\<close>, \<open>ask_exit\<close> and the loop of \<open>interact\<close>).  What the file
  calls in the terminal library and in its parent class is written out as far as the
  file depends on it, and said so where it is defined.
\<close>

section \<open>Python strings\<close>

text \<open>
  A Python (unicode) string is a list of characters; a \<^typ>\<open>char\<close> stands for a code
  point below 256.  \<open>isspace\<close> is Python's test of one character: the code points
  9..13, 28..31, 32, 133 and 160 are the white space of that range.
\<close>

abbreviation NL :: char where
  "NL \<equiv> CHR 0x0A"

definition isspace :: "char \<Rightarrow> bool" where
  "isspace c = (of_char c \<in> {9, 10, 11, 12, 13, 28, 29, 30, 31, 32, 133, 160 :: nat})"

text \<open>\<open>s.isspace()\<close> on a whole string: false on the empty string.\<close>

definition str_isspace :: "string \<Rightarrow> bool" where
  "str_isspace s = (s \<noteq> [] \<and> list_all isspace s)"

definition lstrip :: "string \<Rightarrow> string" where
  "lstrip s = dropWhile isspace s"

definition rstrip :: "string \<Rightarrow> string" where
  "rstrip s = rev (dropWhile isspace (rev s))"

definition strip :: "string \<Rightarrow> string" where
  "strip s = lstrip (rstrip s)"

text \<open>\<open>s.split('\n')\<close>: the pieces between the newlines, never an empty list.\<close>

fun split_nl :: "string \<Rightarrow> string list" where
  "split_nl [] = [[]]"
| "split_nl (c # cs) =
     (if c = NL then [] # split_nl cs
      else (case split_nl cs of [] \<Rightarrow> [[c]] | l # ls \<Rightarrow> (c # l) # ls))"

section \<open>The terminal library's document\<close>

text \<open>
  \<open>prompt_toolkit\<close>'s \<open>Document\<close> is a text and a cursor position in it.  The
  properties that \<open>ptshell.py\<close> reads are written out here as the library computes
  them from these two fields.
\<close>

record document =
  "text" :: string
  cursor_position :: nat

definition text_before_cursor :: "document \<Rightarrow> string" where
  "text_before_cursor d = take (cursor_position d) (text d)"

definition text_after_cursor :: "document \<Rightarrow> string" where
  "text_after_cursor d = drop (cursor_position d) (text d)"

definition current_line_before_cursor :: "document \<Rightarrow> string" where
  "current_line_before_cursor d = rev (takeWhile (\<lambda>c. c \<noteq> NL) (rev (text_before_cursor d)))"

definition current_line_after_cursor :: "document \<Rightarrow> string" where
  "current_line_after_cursor d = takeWhile (\<lambda>c. c \<noteq> NL) (text_after_cursor d)"

definition current_line :: "document \<Rightarrow> string" where
  "current_line d = current_line_before_cursor d @ current_line_after_cursor d"

definition cursor_position_col :: "document \<Rightarrow> nat" where
  "cursor_position_col d = length (current_line_before_cursor d)"

definition lines :: "document \<Rightarrow> string list" where
  "lines d = split_nl (text d)"

definition line_count :: "document \<Rightarrow> nat" where
  "line_count d = length (lines d)"

definition cursor_position_row :: "document \<Rightarrow> nat" where
  "cursor_position_row d = length (split_nl (text_before_cursor d)) - 1"

definition on_last_line :: "document \<Rightarrow> bool" where
  "on_last_line d = (int (cursor_position_row d) = int (line_count d) - 1)"

definition empty_line_count_at_the_end :: "document \<Rightarrow> nat" where
  "empty_line_count_at_the_end d =
     length (takeWhile (\<lambda>line. line = [] \<or> str_isspace line) (rev (lines d)))"

definition leading_whitespace_in_current_line :: "document \<Rightarrow> string" where
  "leading_whitespace_in_current_line d =
     take (length (current_line d) - length (lstrip (current_line d))) (current_line d)"

section \<open>The completion adapter\<close>

text \<open>
  \<open>IPythonPTCompleter.get_completions\<close>.  The completion engine \<open>ipy_completer\<close>
  is the shell's: \<open>complete line_buffer cursor_pos\<close> gives the text it consumed and
  the matches.  The generator is modelled by the list of what it yields, next to the
  list of the calls it made to the engine.
\<close>

datatype completion = Completion string int

definition get_completions ::
  "(string \<Rightarrow> nat \<Rightarrow> string \<times> string list) \<Rightarrow> document \<Rightarrow> completion list \<times> (string \<times> nat) list"
where
  "get_completions ipy_completer d =
     (if strip (current_line d) = [] then ([], [])
      else
        (let (used, matches) = ipy_completer (current_line d) (cursor_position_col d);
             start_pos = - int (length used)
         in (map (\<lambda>m. Completion m start_pos) matches,
             [(current_line d, cursor_position_col d)])))"

section \<open>History preload\<close>

text \<open>
  The loop of \<open>init_prompt_toolkit_cli\<close> over the rows \<open>(session, line, cell)\<close> that
  \<open>history_manager.get_tail\<close> returned.  \<open>last_cell\<close> is the loop's variable of that
  name: the source assigns it once, before the loop, and the body only reads it.
  \<open>history\<close> is the \<open>InMemoryHistory\<close>, whose \<open>append\<close> adds at the end.
\<close>

fun preload_loop :: "(int \<times> int \<times> string) list \<Rightarrow> string \<Rightarrow> string list \<Rightarrow> string list" where
  "preload_loop [] last_cell history = history"
| "preload_loop ((_, _, cell) # rest) last_cell history =
     (let cell = rstrip cell
      in if cell \<noteq> [] \<and> cell \<noteq> last_cell
         then preload_loop rest last_cell (history @ [cell])
         else preload_loop rest last_cell history)"

definition preload_history :: "(int \<times> int \<times> string) list \<Rightarrow> string list" where
  "preload_history tail = preload_loop tail [] []"

section \<open>The terminal library's buffer\<close>

text \<open>
  \<open>prompt_toolkit\<close>'s \<open>Buffer\<close>, as far as \<open>ptshell.py\<close> uses it: the document being
  edited and the accept action.  \<open>RETURN_DOCUMENT\<close> is the action of the prompt
  application (it has a handler, so it is returnable); \<open>IGNORE\<close> has none.
\<close>

datatype accept_action = RETURN_DOCUMENT | IGNORE

definition is_returnable :: "accept_action \<Rightarrow> bool" where
  "is_returnable a = (a = RETURN_DOCUMENT)"

record buffer =
  document :: document
  accept_action :: accept_action

text \<open>\<open>Buffer.insert_text\<close>: the data goes in at the cursor, the cursor moves past it.\<close>

definition insert_text :: "string \<Rightarrow> buffer \<Rightarrow> buffer" where
  "insert_text data b =
     (let otext = text (document b); ocpos = cursor_position (document b)
      in b\<lparr>document := \<lparr>text = take ocpos otext @ data @ drop ocpos otext,
                          cursor_position = ocpos + length data\<rparr>\<rparr>)"

text \<open>
  \<open>Buffer.newline()\<close>, with the library's default \<open>copy_margin=True\<close>: a line ending
  followed by the leading white space of the current line.
\<close>

definition newline :: "buffer \<Rightarrow> buffer" where
  "newline b = insert_text (NL # leading_whitespace_in_current_line (document b)) b"

definition reset :: "buffer \<Rightarrow> buffer" where
  "reset b = b\<lparr>document := \<lparr>text = [], cursor_position = 0\<rparr>\<rparr>"

section \<open>The shell\<close>

text \<open>
  What the terminal delivers while a read is open.  \<open>ControlJ\<close> (Enter) and \<open>ControlC\<close>
  are the two keys \<open>init_prompt_toolkit_cli\<close> binds; \<open>ControlJ\<close> stands for an Enter
  press on which the binding's filter holds (the default buffer has the focus, nothing
  is selected, insert mode).  \<open>EndOfInput\<close> is the event on which the library leaves
  the read with \<open>EOFError\<close>.  \<open>Typed\<close> and \<open>CursorTo\<close> are the library's own editing:
  text inserted at the cursor, and the cursor moved to a position of the text.
  \<open>Pause\<close> is no key: it marks that the terminal has nothing more for the moment.  The
  keys between two pauses were typed ahead and reach the library in one piece.
\<close>

datatype key = ControlJ | ControlC | EndOfInput | Typed string | CursorTo nat | Pause

text \<open>
  The state of a \<open>PTInteractiveShell\<close> and of its surroundings.  \<open>keep_running\<close> and
  \<open>rl_next_input\<close> are the attributes of the source; \<open>pt_buffer\<close> is
  \<open>pt_cli.application.buffer\<close> and \<open>return_value\<close> the value \<open>pt_cli.run\<close> will return
  once it is set.  The calls that leave the file are logged: \<open>checked\<close> holds the texts
  passed to \<open>input_splitter.check_complete\<close>, \<open>dispatched\<close> the arguments
  \<open>(cell, store_history)\<close> of the calls of \<open>run_cell\<close>, \<open>asked\<close> the arguments
  \<open>(prompt, default, interrupt)\<close> of the calls of \<open>ask_yes_no\<close>; \<open>stdout\<close> and
  \<open>stderr\<close> hold what was printed.  \<open>keys\<close> is the terminal input still to come and
  \<open>answers\<close> the replies that \<open>ask_yes_no\<close> will return, in order.
\<close>

record shell =
  keep_running :: bool
  rl_next_input :: "string option"
  pt_buffer :: buffer
  return_value :: "document option"
  checked :: "string list"
  dispatched :: "(string \<times> bool) list"
  asked :: "(string \<times> string \<times> string) list"
  stdout :: string
  stderr :: string
  keys :: "key list"
  answers :: "bool list"

text \<open>
  \<open>accept_action.validate_and_handle\<close>: the prompt application has no validator, so the
  buffer is valid and the action's handler runs; the handler of \<open>RETURN_DOCUMENT\<close> sets
  the return value of the read to the buffer's document.
\<close>

definition validate_and_handle :: "shell \<Rightarrow> shell" where
  "validate_and_handle s =
     (case accept_action (pt_buffer s) of
        RETURN_DOCUMENT \<Rightarrow> s\<lparr>return_value := Some (document (pt_buffer s))\<rparr>
      | IGNORE \<Rightarrow> s)"

text \<open>
  The function bound to \<open>Keys.ControlJ\<close>.  \<open>check_complete\<close> is the shell's
  \<open>input_splitter.check_complete\<close>: it gives a status and an indentation (or \<open>None\<close>).
  \<open>indent or 0\<close> is \<open>0\<close> for \<open>None\<close>, and \<open>' ' * n\<close> is empty for a negative \<open>n\<close>.
\<close>

definition enter_handler :: "(string \<Rightarrow> string \<times> int option) \<Rightarrow> shell \<Rightarrow> shell" where
  "enter_handler check_complete s =
     (let b = pt_buffer s; d = document b
      in if \<not> (on_last_line d \<or>
                 int (cursor_position_row d) \<ge> int (line_count d) - int (empty_line_count_at_the_end d))
         then s\<lparr>pt_buffer := newline b\<rparr>
         else
           (let (status, indent) = check_complete (text d);
                s1 = s\<lparr>checked := checked s @ [text d]\<rparr>
            in if status \<noteq> ''incomplete'' \<and> is_returnable (accept_action b)
               then validate_and_handle s1
               else s1\<lparr>pt_buffer :=
                      insert_text (NL # replicate (nat (case indent of None \<Rightarrow> 0 | Some n \<Rightarrow> n)) CHR '' '') b\<rparr>))"

text \<open>
  \<open>pt_cli.run(pre_run=...)\<close>: the library resets the buffer and the return value, calls
  \<open>pre_run\<close>, and then runs its event loop.  The loop hands every key of the piece of
  input it has read to the bindings, also the keys that follow an Enter which has set a
  return value; setting a return value only asks the loop to stop, which it does when
  the piece is done (at a \<open>Pause\<close>, or where the input ends).  The read then returns
  the return value set last (\<open>Returned\<close>).  On \<open>EndOfInput\<close> the read ends with
  \<open>EOFError\<close> (\<open>Raised_EOFError\<close>).  When the keys run out and no return value is set,
  the read is still waiting for the terminal: \<open>Blocked\<close>.  \<open>handle_key\<close> is what the
  bindings do on one key: the function bound to \<open>ControlJ\<close>, the second binding of the
  source, \<open>ControlC\<close>, which resets the buffer, and the library's editing.
\<close>

datatype run_result = Returned "document option" | Raised_EOFError | Blocked

fun handle_key :: "(string \<Rightarrow> string \<times> int option) \<Rightarrow> key \<Rightarrow> shell \<Rightarrow> shell" where
  "handle_key check_complete ControlJ s = enter_handler check_complete s"
| "handle_key check_complete ControlC s = s\<lparr>pt_buffer := reset (pt_buffer s)\<rparr>"
| "handle_key check_complete (Typed data) s = s\<lparr>pt_buffer := insert_text data (pt_buffer s)\<rparr>"
| "handle_key check_complete (CursorTo n) s =
     s\<lparr>pt_buffer := (pt_buffer s)\<lparr>document :=
          (document (pt_buffer s))\<lparr>cursor_position := min n (length (text (document (pt_buffer s))))\<rparr>\<rparr>\<rparr>"
| "handle_key check_complete EndOfInput s = s"
| "handle_key check_complete Pause s = s"

fun event_loop :: "(string \<Rightarrow> string \<times> int option) \<Rightarrow> key list \<Rightarrow> shell \<Rightarrow> run_result \<times> shell" where
  "event_loop check_complete [] s =
     (case return_value s of
        Some d \<Rightarrow> (Returned (Some d), s\<lparr>keys := []\<rparr>)
      | None \<Rightarrow> (Blocked, s\<lparr>keys := []\<rparr>))"
| "event_loop check_complete (Pause # ks) s =
     (case return_value s of
        Some d \<Rightarrow> (Returned (Some d), s\<lparr>keys := ks\<rparr>)
      | None \<Rightarrow> event_loop check_complete ks s)"
| "event_loop check_complete (EndOfInput # ks) s = (Raised_EOFError, s\<lparr>keys := ks\<rparr>)"
| "event_loop check_complete (k # ks) s = event_loop check_complete ks (handle_key check_complete k s)"

text \<open>The bindings applied to the keys of one piece of input, in order.\<close>

definition handle_keys :: "(string \<Rightarrow> string \<times> int option) \<Rightarrow> key list \<Rightarrow> shell \<Rightarrow> shell" where
  "handle_keys check_complete ks s = foldl (\<lambda>s k. handle_key check_complete k s) s ks"

definition pt_cli_run ::
  "(string \<Rightarrow> string \<times> int option) \<Rightarrow> (shell \<Rightarrow> shell) \<Rightarrow> shell \<Rightarrow> run_result \<times> shell" where
  "pt_cli_run check_complete pre_run s =
     (let s1 = pre_run (s\<lparr>pt_buffer := reset (pt_buffer s), return_value := None\<rparr>)
      in event_loop check_complete (keys s1) s1)"

text \<open>
  \<open>ask_exit\<close> and \<open>pre_prompt\<close>.  \<open>if self.rl_next_input:\<close> holds for a string that is
  not empty; \<open>cast_unicode_py2\<close> leaves a unicode string as it is, and assigning
  \<open>buffer.text\<close> replaces the text of the buffer's document.
\<close>

definition ask_exit :: "shell \<Rightarrow> shell" where
  "ask_exit s = s\<lparr>keep_running := False\<rparr>"

definition pre_prompt :: "shell \<Rightarrow> shell" where
  "pre_prompt s =
     (case rl_next_input s of
        None \<Rightarrow> s
      | Some v \<Rightarrow>
          if v \<noteq> []
          then s\<lparr>pt_buffer := (pt_buffer s)\<lparr>document := (document (pt_buffer s))\<lparr>text := v\<rparr>\<rparr>,
                 rl_next_input := None\<rparr>
          else s)"

text \<open>
  \<open>run_cell\<close> and \<open>ask_yes_no\<close> belong to the parent class, outside this file: a call of
  \<open>run_cell\<close> is logged, and \<open>ask_yes_no\<close> is logged and returns the next of the
  \<open>answers\<close> (none left: the shell waits for the reply).
\<close>

definition run_cell :: "string \<Rightarrow> bool \<Rightarrow> shell \<Rightarrow> shell" where
  "run_cell cell store_history s = s\<lparr>dispatched := dispatched s @ [(cell, store_history)]\<rparr>"

definition ask_yes_no :: "string \<Rightarrow> string \<Rightarrow> string \<Rightarrow> shell \<Rightarrow> (bool \<times> shell) option" where
  "ask_yes_no prompt default_ans interrupt s =
     (case answers s of
        [] \<Rightarrow> None
      | a # rest \<Rightarrow> Some (a, s\<lparr>asked := asked s @ [(prompt, default_ans, interrupt)], answers := rest\<rparr>))"

text \<open>
  A run of \<open>interact\<close> on finite input either returns (\<open>Finished\<close>) or is left in a
  blocking call that the input does not serve (\<open>Waiting\<close>); both carry the state reached.
\<close>

datatype 'a outcome = Finished 'a | Waiting 'a

text \<open>
  The shell after \<open>__init__\<close>: \<open>keep_running\<close> is set, \<open>rl_next_input\<close> is \<open>None\<close>, the
  buffer of the prompt application is empty with the accept action \<open>RETURN_DOCUMENT\<close>.
\<close>

definition init_shell :: "key list \<Rightarrow> bool list \<Rightarrow> shell" where
  "init_shell ks as =
     \<lparr>keep_running = True, rl_next_input = None,
      pt_buffer = \<lparr>document = \<lparr>text = [], cursor_position = 0\<rparr>, accept_action = RETURN_DOCUMENT\<rparr>,
      return_value = None, checked = [], dispatched = [], asked = [], stdout = [], stderr = [],
      keys = ks, answers = as\<rparr>"

text \<open>A read that ends has taken at least one key: the loop below terminates.\<close>

lemma event_loop_keys_le:
  "event_loop check_complete ks s = (r, s') \<Longrightarrow> length (keys s') \<le> length ks"
proof (induction ks arbitrary: s)
  case Nil
  then show ?case by (auto split: option.splits)
next
  case (Cons k ks)
  then show ?case
    by (cases k) (fastforce split: option.splits)+
qed

lemma event_loop_consumes:
  assumes "event_loop check_complete ks s = (r, s')" and "r \<noteq> Blocked" and "return_value s = None"
  shows "length (keys s') < length ks"
proof (cases ks)
  case Nil
  with assms show ?thesis by simp
next
  case (Cons k ks')
  show ?thesis
  proof (cases k)
    case ControlJ
    with assms(1) Cons
    have "event_loop check_complete ks' (enter_handler check_complete s) = (r, s')" by simp
    from event_loop_keys_le [OF this] Cons show ?thesis by simp
  next
    case ControlC
    with assms(1) Cons
    have "event_loop check_complete ks' (s\<lparr>pt_buffer := reset (pt_buffer s)\<rparr>) = (r, s')" by simp
    from event_loop_keys_le [OF this] Cons show ?thesis by simp
  next
    case EndOfInput
    with assms(1) Cons show ?thesis by auto
  next
    case (Typed data)
    with assms(1) Cons
    have "event_loop check_complete ks' (s\<lparr>pt_buffer := insert_text data (pt_buffer s)\<rparr>) = (r, s')"
      by simp
    from event_loop_keys_le [OF this] Cons show ?thesis by simp
  next
    case (CursorTo n)
    with assms(1) Cons
    have "event_loop check_complete ks'
            (s\<lparr>pt_buffer := (pt_buffer s)\<lparr>document :=
                 (document (pt_buffer s))\<lparr>cursor_position := min n (length (text (document (pt_buffer s))))\<rparr>\<rparr>\<rparr>)
          = (r, s')"
      by simp
    from event_loop_keys_le [OF this] Cons show ?thesis by simp
  next
    case Pause
    with assms(1,3) Cons have "event_loop check_complete ks' s = (r, s')" by simp
    from event_loop_keys_le [OF this] Cons show ?thesis by simp
  qed
qed

lemma keys_pre_prompt: "keys (pre_prompt s) = keys s"
  by (simp add: pre_prompt_def split: option.splits)

lemma return_value_pre_prompt: "return_value (pre_prompt s) = return_value s"
  by (simp add: pre_prompt_def split: option.splits)

lemma pt_cli_run_consumes:
  "pt_cli_run check_complete pre_prompt s = (r, s') \<Longrightarrow> r \<noteq> Blocked \<Longrightarrow>
     length (keys s') < length (keys s)"
  using event_loop_consumes [of check_complete "keys (pre_prompt (s\<lparr>pt_buffer := reset (pt_buffer s), return_value := None\<rparr>))"
      "pre_prompt (s\<lparr>pt_buffer := reset (pt_buffer s), return_value := None\<rparr>)" r s']
  by (simp add: pt_cli_run_def Let_def keys_pre_prompt return_value_pre_prompt)

lemma keys_ask_yes_no: "ask_yes_no p d i s = Some (a, s') \<Longrightarrow> keys s' = keys s"
  by (auto simp: ask_yes_no_def split: list.splits)

text \<open>The \<open>while self.keep_running\<close> loop of \<open>interact\<close>.\<close>

function interact_loop :: "(string \<Rightarrow> string \<times> int option) \<Rightarrow> shell \<Rightarrow> shell outcome" where
  "interact_loop check_complete s =
     (if keep_running s then
        (case pt_cli_run check_complete pre_prompt (s\<lparr>stdout := stdout s @ [NL]\<rparr>) of
           (Blocked, s1) \<Rightarrow> Waiting s1
         | (Raised_EOFError, s1) \<Rightarrow>
             (case ask_yes_no ''Do you really want to exit ([y]/n)?'' ''y'' ''n'' s1 of
                None \<Rightarrow> Waiting s1
              | Some (a, s2) \<Rightarrow> interact_loop check_complete (if a then ask_exit s2 else s2))
         | (Returned document', s1) \<Rightarrow>
             (case document' of
                Some d \<Rightarrow> interact_loop check_complete (run_cell (text d) True s1)
              | None \<Rightarrow> interact_loop check_complete s1))
      else Finished s)"
  by pat_completeness auto
termination
proof (relation "measure (\<lambda>(c, s). length (keys s))", goal_cases)
  case 1
  show ?case by simp
next
  case (2 check_complete s x y x1)
  then show ?case
    using pt_cli_run_consumes [of check_complete "s\<lparr>stdout := stdout s @ [NL]\<rparr>" x y]
    by simp
next
  case (3 check_complete s x y x1 x2)
  then show ?case
    using pt_cli_run_consumes [of check_complete "s\<lparr>stdout := stdout s @ [NL]\<rparr>" x y]
    by (simp add: run_cell_def)
next
  case (4 check_complete s x y x2 xa ya)
  then show ?case
    using pt_cli_run_consumes [of check_complete "s\<lparr>stdout := stdout s @ [NL]\<rparr>" x y]
      keys_ask_yes_no [of _ _ _ y xa ya]
    by (simp add: ask_exit_def)
qed

declare interact_loop.simps [simp del]

text \<open>
  \<open>interact\<close>; \<open>wait_for_kernel\<close> is what the call \<open>self.wait_for_kernel(self.kernel_timeout)\<close>
  of the parent class returns.  \<open>print\<close> writes its argument and a newline.
\<close>

definition interact :: "(string \<Rightarrow> string \<times> int option) \<Rightarrow> bool \<Rightarrow> shell \<Rightarrow> shell outcome" where
  "interact check_complete wait_for_kernel s =
     (if \<not> wait_for_kernel
      then Finished (s\<lparr>stderr := stderr s @ ''Kernel did not respond\<newline>\<newline>''\<rparr>)
      else interact_loop check_complete s)"

text \<open>
  The state an outcome carries, and the calls of \<open>run_cell\<close> that the loop makes when it
  is started in state \<open>s\<close>: what its final state has logged beyond the log of \<open>s\<close>.
\<close>

fun state_of :: "'a outcome \<Rightarrow> 'a" where
  "state_of (Finished s) = s"
| "state_of (Waiting s) = s"

definition loop_dispatches :: "(string \<Rightarrow> string \<times> int option) \<Rightarrow> shell \<Rightarrow> (string \<times> bool) list" where
  "loop_dispatches check_complete s =
     drop (length (dispatched s)) (dispatched (state_of (interact_loop check_complete s)))"

section \<open>Properties\<close>

subsection \<open>History preload\<close>

text \<open>
  What the loop computes: the stripped cells that are not empty, each of them kept.  No
  entry of the preloaded history is blank.
\<close>

lemma preload_loop_filter:
  "preload_loop tail [] history =
     history @ filter (\<lambda>cell. cell \<noteq> []) (map (\<lambda>(session, line, cell). rstrip cell) tail)"
  by (induction tail arbitrary: history) (auto simp: Let_def)

lemma preload_history_no_blank: "[] \<notin> set (preload_history tail)"
  by (simp add: preload_history_def preload_loop_filter)

text \<open>
  C1.  The source's comment announces that blank cells and consecutive duplicates are
  skipped, but \<open>last_cell\<close> is never updated in the loop, so only blank cells are: on the
  raw tail \<open>a, a, (empty), b, b\<close> the preloaded history is \<open>a, a, b, b\<close> and not \<open>a, b\<close>.
\<close>

theorem preload_history_keeps_duplicates:
  "preload_history [(1, 1, ''a''), (1, 2, ''a''), (1, 3, ''''), (1, 4, ''b''), (1, 5, ''b'')]
     = [''a'', ''a'', ''b'', ''b'']"
  by (simp add: preload_history_def rstrip_def isspace_def Let_def)

subsection \<open>The completion adapter\<close>

lemma strip_eq_Nil_iff: "strip s = [] \<longleftrightarrow> list_all isspace s"
proof
  assume "list_all isspace s"
  then have "dropWhile isspace (rev s) = []"
    by (simp add: dropWhile_eq_Nil_conv list_all_iff)
  then show "strip s = []"
    unfolding strip_def lstrip_def rstrip_def by (simp only: rev.simps dropWhile.simps)
next
  assume a: "strip s = []"
  show "list_all isspace s"
  proof (cases "dropWhile isspace (rev s)")
    case Nil
    then show ?thesis
      by (simp add: dropWhile_eq_Nil_conv list_all_iff)
  next
    case (Cons c cs)
    then have "\<not> isspace c"
      using hd_dropWhile [of isspace "rev s"] by simp
    moreover from a Cons have "isspace c"
      by (simp add: strip_def lstrip_def rstrip_def dropWhile_eq_Nil_conv)
    ultimately show ?thesis by simp
  qed
qed

text \<open>
  C8.  When the current line is empty or white space only, \<open>get_completions\<close> yields no
  completion and makes no call to the completion engine.
\<close>

theorem blank_line_no_completions:
  assumes "current_line d = [] \<or> str_isspace (current_line d)"
  shows "get_completions ipy_completer d = ([], [])"
proof -
  from assms have "list_all isspace (current_line d)"
    by (auto simp: str_isspace_def)
  then have "strip (current_line d) = []"
    by (simp add: strip_eq_Nil_iff)
  then show ?thesis
    by (simp add: get_completions_def)
qed

theorem blank_line_no_completions_witness:
  "str_isspace (current_line \<lparr>text = ''   '', cursor_position = 1\<rparr>) \<and>
   get_completions (\<lambda>line col. (''pri'', [''print'']))
     \<lparr>text = ''   '', cursor_position = 1\<rparr> = ([], [])"
proof -
  have h: "str_isspace (current_line \<lparr>text = ''   '', cursor_position = 1\<rparr>)"
    by (simp add: current_line_def current_line_before_cursor_def current_line_after_cursor_def
        text_before_cursor_def text_after_cursor_def str_isspace_def isspace_def)
  then have "current_line \<lparr>text = ''   '', cursor_position = 1\<rparr> = [] \<or>
      str_isspace (current_line \<lparr>text = ''   '', cursor_position = 1\<rparr>)" ..
  from blank_line_no_completions [OF this] h show ?thesis by simp
qed

lemma current_line_foo:
  "current_line \<lparr>text = ''foo'', cursor_position = 3\<rparr> = ''foo''"
  "cursor_position_col \<lparr>text = ''foo'', cursor_position = 3\<rparr> = 3"
  by (simp_all add: current_line_def cursor_position_col_def current_line_before_cursor_def
      current_line_after_cursor_def text_before_cursor_def text_after_cursor_def)

text \<open>
  C7.  On a current line that is not blank, when the engine returns a consumed text of
  length 3 and the matches \<open>foo\<close>, \<open>foobar\<close>, the adapter yields exactly these two, in
  this order, each with start position \<open>-3\<close> (three characters before the cursor), from
  one call to the engine with the current line and the cursor column.
\<close>

theorem completions_anchored_before_cursor:
  assumes "\<not> (current_line d = [] \<or> str_isspace (current_line d))"
    and "ipy_completer (current_line d) (cursor_position_col d) = (used, [''foo'', ''foobar''])"
    and "length used = 3"
  shows "get_completions ipy_completer d =
           ([Completion ''foo'' (- 3), Completion ''foobar'' (- 3)],
            [(current_line d, cursor_position_col d)])"
proof -
  from assms(1) have "\<not> list_all isspace (current_line d)"
    by (cases "current_line d") (auto simp: str_isspace_def)
  then have "strip (current_line d) \<noteq> []"
    by (simp add: strip_eq_Nil_iff)
  with assms(2,3) show ?thesis
    by (simp add: get_completions_def)
qed

theorem completions_anchored_before_cursor_witness:
  "get_completions (\<lambda>line col. (take col line, [''foo'', ''foobar'']))
     \<lparr>text = ''foo'', cursor_position = 3\<rparr> =
   ([Completion ''foo'' (- 3), Completion ''foobar'' (- 3)], [(''foo'', 3)])"
  using completions_anchored_before_cursor
    [of "\<lparr>text = ''foo'', cursor_position = 3\<rparr>"
        "\<lambda>line col. (take col line, [''foo'', ''foobar''])" "''foo''"]
  by (simp add: current_line_foo str_isspace_def isspace_def)

subsection \<open>The read and the loop: auxiliary facts\<close>

lemma enter_handler_keys_update:
  "enter_handler c (s\<lparr>keys := x\<rparr>) = (enter_handler c s)\<lparr>keys := x\<rparr>"
  by (simp add: enter_handler_def validate_and_handle_def Let_def
      split: prod.splits accept_action.splits)

lemma enter_handler_frame:
  "dispatched (enter_handler c s) = dispatched s"
  "asked (enter_handler c s) = asked s"
  "answers (enter_handler c s) = answers s"
  "keep_running (enter_handler c s) = keep_running s"
  "stdout (enter_handler c s) = stdout s"
  "stderr (enter_handler c s) = stderr s"
  "accept_action (pt_buffer (enter_handler c s)) = accept_action (pt_buffer s)"
  by (simp_all add: enter_handler_def validate_and_handle_def newline_def insert_text_def Let_def
      split: prod.splits accept_action.splits)

lemma keys_update_commute:
  "s\<lparr>keys := x, pt_buffer := b\<rparr> = s\<lparr>pt_buffer := b, keys := x\<rparr>"
  by simp

lemma event_loop_keys_irrelevant:
  "event_loop c ks (s\<lparr>keys := x\<rparr>) = event_loop c ks s"
proof (induction ks arbitrary: s)
  case Nil
  show ?case by (simp split: option.splits)
next
  case (Cons k ks)
  show ?case
  proof (cases k)
    case ControlJ
    then show ?thesis
      using Cons.IH [of "enter_handler c s"]
      by (simp add: enter_handler_keys_update)
  next
    case ControlC
    then show ?thesis
      using Cons.IH [of "s\<lparr>pt_buffer := reset (pt_buffer s)\<rparr>"]
      by (simp add: keys_update_commute)
  next
    case EndOfInput
    then show ?thesis by simp
  next
    case (Typed data)
    then show ?thesis
      using Cons.IH [of "s\<lparr>pt_buffer := insert_text data (pt_buffer s)\<rparr>"]
      by (simp add: keys_update_commute)
  next
    case (CursorTo n)
    then show ?thesis
      using Cons.IH [of "s\<lparr>pt_buffer := (pt_buffer s)\<lparr>document :=
                 (document (pt_buffer s))\<lparr>cursor_position := min n (length (text (document (pt_buffer s))))\<rparr>\<rparr>\<rparr>"]
      by (simp add: keys_update_commute)
  next
    case Pause
    then show ?thesis
      using Cons.IH [of s] by (simp split: option.splits)
  qed
qed

lemma event_loop_append:
  "event_loop c pre s = (Blocked, s') \<Longrightarrow> event_loop c (pre @ rest) s = event_loop c rest s'"
proof (induction pre arbitrary: s)
  case Nil
  then show ?case by (auto simp: event_loop_keys_irrelevant split: option.splits)
next
  case (Cons k pre)
  then show ?case
    by (cases k) (auto split: option.splits)
qed

lemma event_loop_blocked:
  "event_loop c ks s = (Blocked, s') \<Longrightarrow> return_value s' = None"
proof (induction ks arbitrary: s)
  case Nil
  then show ?case by (auto split: option.splits)
next
  case (Cons k ks)
  then show ?case
    by (cases k) (auto split: option.splits)
qed

lemma event_loop_frame:
  "event_loop c ks s = (r, s') \<Longrightarrow>
     dispatched s' = dispatched s \<and> asked s' = asked s \<and> answers s' = answers s \<and>
     keep_running s' = keep_running s \<and> stdout s' = stdout s \<and> stderr s' = stderr s \<and>
     accept_action (pt_buffer s') = accept_action (pt_buffer s)"
proof (induction ks arbitrary: s)
  case Nil
  then show ?case by (auto split: option.splits)
next
  case (Cons k ks)
  show ?case
  proof (cases k)
    case ControlJ
    with Cons.prems have "event_loop c ks (enter_handler c s) = (r, s')" by simp
    from Cons.IH [OF this] show ?thesis by (simp add: enter_handler_frame)
  next
    case ControlC
    with Cons.prems have "event_loop c ks (s\<lparr>pt_buffer := reset (pt_buffer s)\<rparr>) = (r, s')"
      by simp
    from Cons.IH [OF this] show ?thesis by (simp add: reset_def)
  next
    case EndOfInput
    with Cons.prems show ?thesis by auto
  next
    case (Typed data)
    with Cons.prems have "event_loop c ks (s\<lparr>pt_buffer := insert_text data (pt_buffer s)\<rparr>) = (r, s')"
      by simp
    from Cons.IH [OF this] show ?thesis by (simp add: insert_text_def Let_def)
  next
    case (CursorTo n)
    with Cons.prems have "event_loop c ks (s\<lparr>pt_buffer := (pt_buffer s)\<lparr>document :=
                 (document (pt_buffer s))\<lparr>cursor_position := min n (length (text (document (pt_buffer s))))\<rparr>\<rparr>\<rparr>) = (r, s')"
      by simp
    from Cons.IH [OF this] show ?thesis by simp
  next
    case Pause
    show ?thesis
    proof (cases "return_value s")
      case None
      with Cons.prems Pause have "event_loop c ks s = (r, s')" by simp
      from Cons.IH [OF this] show ?thesis .
    next
      case (Some d)
      with Cons.prems Pause show ?thesis by auto
    qed
  qed
qed

lemma pre_prompt_frame:
  "dispatched (pre_prompt s) = dispatched s"
  "asked (pre_prompt s) = asked s"
  "answers (pre_prompt s) = answers s"
  "keep_running (pre_prompt s) = keep_running s"
  "stdout (pre_prompt s) = stdout s"
  "stderr (pre_prompt s) = stderr s"
  "keys (pre_prompt s) = keys s"
  "accept_action (pt_buffer (pre_prompt s)) = accept_action (pt_buffer s)"
  by (simp_all add: pre_prompt_def split: option.splits)

lemma pre_prompt_keys_update:
  "pre_prompt (s\<lparr>keys := x\<rparr>) = (pre_prompt s)\<lparr>keys := x\<rparr>"
  by (simp add: pre_prompt_def split: option.splits)

lemma pt_cli_run_frame:
  assumes "pt_cli_run c pre_prompt s = (r, s')"
  shows "dispatched s' = dispatched s \<and> asked s' = asked s \<and> answers s' = answers s \<and>
     keep_running s' = keep_running s \<and> stdout s' = stdout s \<and> stderr s' = stderr s \<and>
     accept_action (pt_buffer s') = accept_action (pt_buffer s)"
  using event_loop_frame [OF assms [unfolded pt_cli_run_def Let_def]]
  by (simp add: pre_prompt_frame reset_def)

text \<open>The read given only a prefix of the keys is still open: with further keys it goes on
  from the state it had reached, in which no return value is set.\<close>

lemma pt_cli_run_append:
  assumes "pt_cli_run c pre_prompt (s\<lparr>keys := pre\<rparr>) = (Blocked, s')"
    and "keys s = pre @ rest"
  shows "pt_cli_run c pre_prompt s = event_loop c rest s'"
proof -
  let ?t = "pre_prompt (s\<lparr>pt_buffer := reset (pt_buffer s), return_value := None\<rparr>)"
  have "pre_prompt (s\<lparr>keys := pre, pt_buffer := reset (pt_buffer s), return_value := None\<rparr>)
      = ?t\<lparr>keys := pre\<rparr>"
    by (cases s) (simp add: pre_prompt_def split: option.splits)
  with assms(1) have "event_loop c pre ?t = (Blocked, s')"
    by (simp add: pt_cli_run_def Let_def pre_prompt_frame event_loop_keys_irrelevant)
  from event_loop_append [OF this, of rest] assms(2) show ?thesis
    by (simp add: pt_cli_run_def Let_def pre_prompt_frame)
qed

lemma pt_cli_run_blocked:
  "pt_cli_run c pre_prompt s = (Blocked, s') \<Longrightarrow> return_value s' = None"
  unfolding pt_cli_run_def Let_def by (rule event_loop_blocked)

lemma event_loop_stops:
  assumes "return_value s = Some d" and "after = [] \<or> hd after = Pause"
  shows "event_loop c after s = (Returned (Some d), s\<lparr>keys := tl after\<rparr>)"
proof (cases after)
  case Nil
  with assms(1) show ?thesis by simp
next
  case (Cons k ks)
  with assms show ?thesis by simp
qed

lemmas document_defs =
  on_last_line_def cursor_position_row_def line_count_def lines_def
  empty_line_count_at_the_end_def text_before_cursor_def text_after_cursor_def
  current_line_def current_line_before_cursor_def current_line_after_cursor_def
  cursor_position_col_def leading_whitespace_in_current_line_def
  str_isspace_def isspace_def lstrip_def rstrip_def strip_def

lemmas shell_defs =
  init_shell_def pt_cli_run_def pre_prompt_def reset_def insert_text_def newline_def
  enter_handler_def validate_and_handle_def is_returnable_def run_cell_def ask_exit_def
  ask_yes_no_def Let_def

lemma interact_loop_returned:
  "keep_running s \<Longrightarrow>
   pt_cli_run c pre_prompt (s\<lparr>stdout := stdout s @ [NL]\<rparr>) = (Returned (Some d), s1) \<Longrightarrow>
   interact_loop c s = interact_loop c (run_cell (text d) True s1)"
  by (subst interact_loop.simps) simp

lemma interact_loop_stopped: "\<not> keep_running s \<Longrightarrow> interact_loop c s = Finished s"
  by (subst interact_loop.simps) simp

lemma interact_loop_eof:
  "keep_running s \<Longrightarrow>
   pt_cli_run c pre_prompt (s\<lparr>stdout := stdout s @ [NL]\<rparr>) = (Raised_EOFError, s1) \<Longrightarrow>
   answers s1 = a # rest \<Longrightarrow>
   interact_loop c s =
     interact_loop c
       (if a then ask_exit (s1\<lparr>asked := asked s1 @ [(''Do you really want to exit ([y]/n)?'', ''y'', ''n'')], answers := rest\<rparr>)
        else s1\<lparr>asked := asked s1 @ [(''Do you really want to exit ([y]/n)?'', ''y'', ''n'')], answers := rest\<rparr>)"
  by (subst interact_loop.simps) (simp add: ask_yes_no_def)

text \<open>The loop only adds to the log of dispatches.\<close>

lemma interact_loop_extends:
  "\<exists>xs. dispatched (state_of (interact_loop c s)) = dispatched s @ xs"
proof (induction c s rule: interact_loop.induct)
  case (1 c s)
  show ?case
  proof (cases "keep_running s")
    case False
    then show ?thesis by (simp add: interact_loop_stopped)
  next
    case True
    obtain r s1 where run: "pt_cli_run c pre_prompt (s\<lparr>stdout := stdout s @ [NL]\<rparr>) = (r, s1)"
      by fastforce
    have d1: "dispatched s1 = dispatched s"
      using pt_cli_run_frame [OF run] by simp
    show ?thesis
    proof (cases r)
      case Blocked
      with True run have "interact_loop c s = Waiting s1"
        by (subst interact_loop.simps) simp
      with d1 show ?thesis by simp
    next
      case Raised_EOFError
      show ?thesis
      proof (cases "ask_yes_no ''Do you really want to exit ([y]/n)?'' ''y'' ''n'' s1")
        case None
        with True run Raised_EOFError have "interact_loop c s = Waiting s1"
          by (subst interact_loop.simps) simp
        with d1 show ?thesis by simp
      next
        case (Some p)
        obtain a s2 where p: "p = (a, s2)" by (cases p)
        have d2: "dispatched s2 = dispatched s1"
          using Some p by (auto simp: ask_yes_no_def split: list.splits)
        from True run Raised_EOFError Some p
        have e: "interact_loop c s = interact_loop c (if a then ask_exit s2 else s2)"
          by (subst interact_loop.simps) simp
        from "1.IH"(3) [OF True run [symmetric] Raised_EOFError Some p [symmetric]]
        obtain xs where "dispatched (state_of (interact_loop c (if a then ask_exit s2 else s2)))
            = dispatched (if a then ask_exit s2 else s2) @ xs" ..
        with e d1 d2 show ?thesis by (auto simp: ask_exit_def)
      qed
    next
      case (Returned doc)
      show ?thesis
      proof (cases doc)
        case None
        with True run Returned have e: "interact_loop c s = interact_loop c s1"
          by (subst interact_loop.simps) simp
        from "1.IH"(1) [OF True run [symmetric] Returned None]
        obtain xs where "dispatched (state_of (interact_loop c s1)) = dispatched s1 @ xs" ..
        with e d1 show ?thesis by simp
      next
        case (Some d)
        with True run Returned
        have e: "interact_loop c s = interact_loop c (run_cell (text d) True s1)"
          by (subst interact_loop.simps) simp
        from "1.IH"(2) [OF True run [symmetric] Returned Some]
        obtain xs where "dispatched (state_of (interact_loop c (run_cell (text d) True s1)))
            = dispatched (run_cell (text d) True s1) @ xs" ..
        with e d1 show ?thesis by (simp add: run_cell_def)
      qed
    qed
  qed
qed

lemma interact_loop_dispatched:
  "dispatched (state_of (interact_loop c s)) = dispatched s @ loop_dispatches c s"
  using interact_loop_extends [of c s] by (auto simp: loop_dispatches_def)

lemma loop_dispatches_step:
  assumes "interact_loop c s = interact_loop c s2" and "dispatched s2 = dispatched s @ xs"
  shows "loop_dispatches c s = xs @ loop_dispatches c s2"
proof -
  have "dispatched (state_of (interact_loop c s)) = dispatched s2 @ loop_dispatches c s2"
    unfolding assms(1) by (rule interact_loop_dispatched)
  then show ?thesis
    by (simp add: loop_dispatches_def [of c s] assms(2))
qed

lemma handle_key_frame:
  "dispatched (handle_key c k s) = dispatched s"
  "accept_action (pt_buffer (handle_key c k s)) = accept_action (pt_buffer s)"
  by (cases k; simp add: enter_handler_frame reset_def insert_text_def Let_def)+

lemma handle_keys_frame:
  "dispatched (handle_keys c ks s) = dispatched s \<and>
   accept_action (pt_buffer (handle_keys c ks s)) = accept_action (pt_buffer s)"
  unfolding handle_keys_def
  by (induction ks arbitrary: s) (simp_all add: handle_key_frame)

lemma event_loop_handle_keys:
  "Pause \<notin> set piece \<Longrightarrow> EndOfInput \<notin> set piece \<Longrightarrow>
   event_loop c (piece @ rest) s = event_loop c rest (handle_keys c piece s)"
proof (induction piece arbitrary: s)
  case Nil
  show ?case by (simp add: handle_keys_def)
next
  case (Cons k piece)
  then show ?case
    by (cases k) (simp_all add: handle_keys_def)
qed

lemma enter_handler_accepts:
  assumes "on_last_line (document (pt_buffer s))"
    and "c (text (document (pt_buffer s))) = (status, indent)"
    and "status \<noteq> ''incomplete''"
    and "is_returnable (accept_action (pt_buffer s))"
  shows "enter_handler c s =
           s\<lparr>checked := checked s @ [text (document (pt_buffer s))],
             return_value := Some (document (pt_buffer s))\<rparr>"
  using assms
  by (simp add: enter_handler_def validate_and_handle_def is_returnable_def Let_def)

subsection \<open>The Enter key\<close>

text \<open>
  C2 (amended).  Enter is pressed in a read of the running loop: the buffer is the
  prompt application's (its accept action is \<open>RETURN_DOCUMENT\<close>); the read was open when
  the piece of input with this Enter arrived, and the bindings have handled the keys
  of the piece that come before it (earlier Enter presses among them or not), which
  gives the state \<open>s\<close>; the cursor is on the last line, and the completeness check of
  the buffer text gives \<open>complete\<close>, or the buffer is returnable and the status is not
  \<open>incomplete\<close>.  Then the handler checks the text once and sets the buffer's document as
  the return value.  When moreover nothing typed ahead follows this Enter (the input
  ends or pauses after it), the read returns that document, the read itself has
  dispatched nothing, and the first call of \<open>run_cell\<close> that the loop makes from here on
  is \<open>run_cell(text, store_history=True)\<close> with the whole buffer text, made once; what
  follows it in the log is dispatched by the loop as it goes on from the next iteration.
\<close>

theorem enter_accepts_and_dispatches_once:
  assumes "keep_running s0"
    and "accept_action (pt_buffer s0) = RETURN_DOCUMENT"
    and "keys s0 = before @ piece @ ControlJ # after"
    and "pt_cli_run c pre_prompt (s0\<lparr>stdout := stdout s0 @ [NL], keys := before\<rparr>) = (Blocked, sb)"
    and "Pause \<notin> set piece" and "EndOfInput \<notin> set piece"
    and "s = handle_keys c piece sb"
    and "on_last_line (document (pt_buffer s))"
    and "c (text (document (pt_buffer s))) = (status, indent)"
    and "status = ''complete'' \<or> (is_returnable (accept_action (pt_buffer s)) \<and> status \<noteq> ''incomplete'')"
    and "after = [] \<or> hd after = Pause"
  shows "enter_handler c s =
           s\<lparr>checked := checked s @ [text (document (pt_buffer s))],
             return_value := Some (document (pt_buffer s))\<rparr> \<and>
         pt_cli_run c pre_prompt (s0\<lparr>stdout := stdout s0 @ [NL]\<rparr>) =
           (Returned (Some (document (pt_buffer s))),
            s\<lparr>checked := checked s @ [text (document (pt_buffer s))],
              return_value := Some (document (pt_buffer s)), keys := tl after\<rparr>) \<and>
         dispatched s = dispatched s0 \<and>
         interact_loop c s0 =
           interact_loop c
             (s\<lparr>checked := checked s @ [text (document (pt_buffer s))],
                return_value := Some (document (pt_buffer s)), keys := tl after,
                dispatched := dispatched s0 @ [(text (document (pt_buffer s)), True)]\<rparr>) \<and>
         dispatched (state_of (interact_loop c s0)) = dispatched s0 @ loop_dispatches c s0 \<and>
         loop_dispatches c s0 =
           (text (document (pt_buffer s)), True) #
           loop_dispatches c
             (s\<lparr>checked := checked s @ [text (document (pt_buffer s))],
                return_value := Some (document (pt_buffer s)), keys := tl after,
                dispatched := dispatched s0 @ [(text (document (pt_buffer s)), True)]\<rparr>)"
proof -
  let ?d = "document (pt_buffer s)"
  let ?s' = "s\<lparr>checked := checked s @ [text ?d], return_value := Some ?d\<rparr>"
  let ?s2 = "s\<lparr>checked := checked s @ [text ?d], return_value := Some ?d, keys := tl after,
                dispatched := dispatched s0 @ [(text ?d, True)]\<rparr>"
  have f: "dispatched s = dispatched s0" "accept_action (pt_buffer s) = RETURN_DOCUMENT"
    using pt_cli_run_frame [OF assms(4)] assms(2) handle_keys_frame [of c piece sb]
    by (simp_all add: assms(7))
  then have ret: "is_returnable (accept_action (pt_buffer s))"
    by (simp add: is_returnable_def)
  from assms(10) ret have st: "status \<noteq> ''incomplete''" by auto
  have h: "enter_handler c s = ?s'"
    using assms(8,9) st ret by (rule enter_handler_accepts)
  have "pt_cli_run c pre_prompt ((s0\<lparr>stdout := stdout s0 @ [NL]\<rparr>)\<lparr>keys := before\<rparr>) = (Blocked, sb)"
    using assms(4) by simp
  moreover have "keys (s0\<lparr>stdout := stdout s0 @ [NL]\<rparr>) = before @ (piece @ ControlJ # after)"
    using assms(3) by simp
  ultimately have "pt_cli_run c pre_prompt (s0\<lparr>stdout := stdout s0 @ [NL]\<rparr>)
      = event_loop c (piece @ ControlJ # after) sb"
    by (rule pt_cli_run_append)
  also have "\<dots> = event_loop c (ControlJ # after) s"
    using assms(5,6) by (simp add: event_loop_handle_keys assms(7))
  also have "\<dots> = event_loop c after ?s'"
    by (simp add: h)
  also have "\<dots> = (Returned (Some ?d), ?s'\<lparr>keys := tl after\<rparr>)"
    using assms(11) by (intro event_loop_stops) simp_all
  finally have r: "pt_cli_run c pre_prompt (s0\<lparr>stdout := stdout s0 @ [NL]\<rparr>)
      = (Returned (Some ?d), ?s'\<lparr>keys := tl after\<rparr>)" .
  have "interact_loop c s0 = interact_loop c (run_cell (text ?d) True (?s'\<lparr>keys := tl after\<rparr>))"
    using assms(1) r by (rule interact_loop_returned)
  then have l: "interact_loop c s0 = interact_loop c ?s2"
    by (simp add: run_cell_def f)
  have "loop_dispatches c s0 = [(text ?d, True)] @ loop_dispatches c ?s2"
    using l by (rule loop_dispatches_step) simp
  with h r f l show ?thesis by (simp add: interact_loop_dispatched)
qed

theorem enter_accepts_and_dispatches_once_witness:
  "interact_loop (\<lambda>t. (''complete'', None))
     (init_shell [Typed ''a'', ControlJ, Pause, Typed ''x'', ControlJ, Typed ''y'', ControlJ, Pause, Typed ''z''] []) =
     Waiting ((init_shell [] [])
       \<lparr>pt_buffer := \<lparr>document = \<lparr>text = ''z'', cursor_position = 1\<rparr>, accept_action = RETURN_DOCUMENT\<rparr>,
        checked := [''a'', ''x'', ''xy''], dispatched := [(''a'', True), (''xy'', True)],
        stdout := [NL, NL, NL]\<rparr>)"
proof -
  let ?c = "\<lambda>t :: string. (''complete'', None :: int option)"
  let ?init = "init_shell [Typed ''a'', ControlJ, Pause, Typed ''x'', ControlJ, Typed ''y'', ControlJ, Pause, Typed ''z''] []"
  let ?next = "(init_shell [Typed ''x'', ControlJ, Typed ''y'', ControlJ, Pause, Typed ''z''] [])
       \<lparr>pt_buffer := \<lparr>document = \<lparr>text = ''a'', cursor_position = 1\<rparr>, accept_action = RETURN_DOCUMENT\<rparr>,
        return_value := Some \<lparr>text = ''a'', cursor_position = 1\<rparr>,
        checked := [''a''], dispatched := [(''a'', True)], stdout := [NL]\<rparr>"
  let ?sb = "(init_shell [] [])\<lparr>checked := [''a''], dispatched := [(''a'', True)], stdout := [NL, NL]\<rparr>"
  let ?piece = "[Typed ''x'', ControlJ, Typed ''y'']"
  let ?mid = "(init_shell [] [])
       \<lparr>pt_buffer := \<lparr>document = \<lparr>text = ''xy'', cursor_position = 2\<rparr>, accept_action = RETURN_DOCUMENT\<rparr>,
        return_value := Some \<lparr>text = ''x'', cursor_position = 1\<rparr>,
        checked := [''a'', ''x''], dispatched := [(''a'', True)], stdout := [NL, NL]\<rparr>"
  have first: "interact_loop ?c ?init = interact_loop ?c ?next"
    by (subst interact_loop.simps) (simp add: shell_defs document_defs)
  have 1: "keep_running ?next" by (simp add: init_shell_def)
  have 2: "accept_action (pt_buffer ?next) = RETURN_DOCUMENT" by (simp add: init_shell_def)
  have 3: "keys ?next = [] @ ?piece @ ControlJ # [Pause, Typed ''z'']" by (simp add: init_shell_def)
  have 4: "pt_cli_run ?c pre_prompt (?next\<lparr>stdout := stdout ?next @ [NL], keys := []\<rparr>) = (Blocked, ?sb)"
    by (simp add: shell_defs)
  have 5: "Pause \<notin> set ?piece" by simp
  have 6: "EndOfInput \<notin> set ?piece" by simp
  have 7: "?mid = handle_keys ?c ?piece ?sb"
    by (simp add: handle_keys_def shell_defs document_defs numeral_2_eq_2)
  have 8: "on_last_line (document (pt_buffer ?mid))" by (simp add: document_defs)
  have 9: "?c (text (document (pt_buffer ?mid))) = (''complete'', None)" by simp
  have 10: "''complete'' = ''complete'' \<or>
      (is_returnable (accept_action (pt_buffer ?mid)) \<and> ''complete'' \<noteq> ''incomplete'')" by simp
  have 11: "[Pause, Typed ''z''] = [] \<or> hd [Pause, Typed ''z''] = Pause" by simp
  note w = enter_accepts_and_dispatches_once [OF 1 2 3 4 5 6 7 8 9 10 11]
  from w have "interact_loop ?c ?next = interact_loop ?c
     (?mid\<lparr>checked := checked ?mid @ [text (document (pt_buffer ?mid))],
         return_value := Some (document (pt_buffer ?mid)), keys := tl [Pause, Typed ''z''],
         dispatched := dispatched ?next @ [(text (document (pt_buffer ?mid)), True)]\<rparr>)"
    by blast
  also have "\<dots> = Waiting ((init_shell [] [])
       \<lparr>pt_buffer := \<lparr>document = \<lparr>text = ''z'', cursor_position = 1\<rparr>, accept_action = RETURN_DOCUMENT\<rparr>,
        checked := [''a'', ''x'', ''xy''], dispatched := [(''a'', True), (''xy'', True)],
        stdout := [NL, NL, NL]\<rparr>)"
    by (subst interact_loop.simps) (simp add: shell_defs)
  finally show ?thesis using first by simp
qed

text \<open>
  C2 as stated fails for an Enter that is followed by typed-ahead keys.  The keys
  \<open>x\<close>, Enter, \<open>y\<close>, Enter reach the read in one piece.  At the first Enter the buffer
  text is \<open>x\<close>, the cursor is on the last line and the check gives \<open>complete\<close>; yet the
  read does not end there: \<open>y\<close> goes into the same buffer, the second Enter checks
  \<open>xy\<close>, and the only dispatch of the run is \<open>xy\<close>.  No call dispatches \<open>x\<close>.
\<close>

theorem typed_ahead_enter_counterexample:
  "on_last_line \<lparr>text = ''x'', cursor_position = 1\<rparr> \<and>
   pt_cli_run (\<lambda>t. (''complete'', None)) pre_prompt
     ((init_shell [Typed ''x''] [])\<lparr>stdout := [NL]\<rparr>) =
     (Blocked, (init_shell [] [])
       \<lparr>pt_buffer := \<lparr>document = \<lparr>text = ''x'', cursor_position = 1\<rparr>, accept_action = RETURN_DOCUMENT\<rparr>,
        stdout := [NL]\<rparr>) \<and>
   interact_loop (\<lambda>t. (''complete'', None)) (init_shell [Typed ''x'', ControlJ, Typed ''y'', ControlJ] []) =
     Waiting ((init_shell [] [])
       \<lparr>checked := [''x'', ''xy''], dispatched := [(''xy'', True)], stdout := [NL, NL]\<rparr>)"
proof -
  have "interact_loop (\<lambda>t. (''complete'', None)) (init_shell [Typed ''x'', ControlJ, Typed ''y'', ControlJ] []) =
     interact_loop (\<lambda>t. (''complete'', None))
       ((init_shell [] [])
          \<lparr>pt_buffer := \<lparr>document = \<lparr>text = ''xy'', cursor_position = 2\<rparr>, accept_action = RETURN_DOCUMENT\<rparr>,
           return_value := Some \<lparr>text = ''xy'', cursor_position = 2\<rparr>,
           checked := [''x'', ''xy''], dispatched := [(''xy'', True)], stdout := [NL]\<rparr>)"
    by (subst interact_loop.simps) (simp add: shell_defs document_defs numeral_2_eq_2)
  also have "\<dots> = Waiting ((init_shell [] [])
       \<lparr>checked := [''x'', ''xy''], dispatched := [(''xy'', True)], stdout := [NL, NL]\<rparr>)"
    by (subst interact_loop.simps) (simp add: shell_defs)
  finally show ?thesis
    by (simp add: shell_defs document_defs)
qed

text \<open>
  C4.  Enter on the last line, the check gives \<open>incomplete\<close> with indentation 4, the
  buffer is not returnable, the read is open: the handler checks the text once and
  inserts a newline and four spaces at the cursor, so the text grows by these five
  characters; nothing is dispatched, no return value is set, and the read goes on with
  the next key, also when the input pauses or runs out right after this Enter.
\<close>

theorem enter_incomplete_indents:
  assumes "on_last_line (document (pt_buffer s))"
    and "c (text (document (pt_buffer s))) = (''incomplete'', Some 4)"
    and "\<not> is_returnable (accept_action (pt_buffer s))"
    and "return_value s = None"
  shows "enter_handler c s =
           s\<lparr>checked := checked s @ [text (document (pt_buffer s))],
             pt_buffer := insert_text (NL # ''    '') (pt_buffer s)\<rparr> \<and>
         text (document (pt_buffer (enter_handler c s))) =
           take (cursor_position (document (pt_buffer s))) (text (document (pt_buffer s))) @
           NL # ''    '' @
           drop (cursor_position (document (pt_buffer s))) (text (document (pt_buffer s))) \<and>
         length (text (document (pt_buffer (enter_handler c s)))) =
           length (text (document (pt_buffer s))) + 5 \<and>
         dispatched (enter_handler c s) = dispatched s \<and>
         return_value (enter_handler c s) = None \<and>
         event_loop c (ControlJ # ks) s = event_loop c ks (enter_handler c s) \<and>
         event_loop c (ControlJ # Pause # ks) s = event_loop c ks (enter_handler c s) \<and>
         event_loop c [ControlJ] s = (Blocked, (enter_handler c s)\<lparr>keys := []\<rparr>)"
proof -
  have h: "enter_handler c s =
           s\<lparr>checked := checked s @ [text (document (pt_buffer s))],
             pt_buffer := insert_text (NL # ''    '') (pt_buffer s)\<rparr>"
    using assms(1-3) by (simp add: enter_handler_def Let_def eval_nat_numeral)
  have t: "text (document (pt_buffer (enter_handler c s))) =
           take (cursor_position (document (pt_buffer s))) (text (document (pt_buffer s))) @
           NL # ''    '' @
           drop (cursor_position (document (pt_buffer s))) (text (document (pt_buffer s)))"
    by (simp add: h insert_text_def Let_def)
  have n: "length (text (document (pt_buffer (enter_handler c s)))) =
           length (text (document (pt_buffer s))) + 5"
    unfolding t by (simp add: min_def)
  have r: "return_value (enter_handler c s) = None"
    using assms(4) by (simp add: h)
  have e1: "event_loop c (ControlJ # ks) s = event_loop c ks (enter_handler c s)"
    by simp
  have e2: "event_loop c (ControlJ # Pause # ks) s = event_loop c ks (enter_handler c s)"
    using r by simp
  have e3: "event_loop c [ControlJ] s = (Blocked, (enter_handler c s)\<lparr>keys := []\<rparr>)"
    using r by simp
  from h t n r e1 e2 e3 show ?thesis by (simp add: enter_handler_frame)
qed

theorem enter_incomplete_indents_witness:
  "event_loop (\<lambda>t. (''incomplete'', Some 4)) [ControlJ]
     ((init_shell [] [])\<lparr>pt_buffer :=
        \<lparr>document = \<lparr>text = ''if x:'', cursor_position = 5\<rparr>, accept_action = IGNORE\<rparr>\<rparr>) =
   (Blocked,
     (init_shell [] [])\<lparr>pt_buffer :=
        \<lparr>document = \<lparr>text = ''if x:'' @ NL # ''    '', cursor_position = 10\<rparr>, accept_action = IGNORE\<rparr>,
        checked := [''if x:'']\<rparr>)"
proof -
  let ?c = "\<lambda>t :: string. (''incomplete'', Some (4 :: int))"
  let ?mid = "(init_shell [] [])\<lparr>pt_buffer :=
        \<lparr>document = \<lparr>text = ''if x:'', cursor_position = 5\<rparr>, accept_action = IGNORE\<rparr>\<rparr>"
  have 1: "on_last_line (document (pt_buffer ?mid))" by (simp add: document_defs)
  have 2: "?c (text (document (pt_buffer ?mid))) = (''incomplete'', Some 4)" by simp
  have 3: "\<not> is_returnable (accept_action (pt_buffer ?mid))" by (simp add: is_returnable_def)
  have 4: "return_value ?mid = None" by (simp add: init_shell_def)
  note w = enter_incomplete_indents [OF 1 2 3 4, of "[]"]
  from w have "event_loop ?c [ControlJ] ?mid = event_loop ?c [] (enter_handler ?c ?mid)"
    by blast
  moreover from w have "enter_handler ?c ?mid =
      ?mid\<lparr>checked := checked ?mid @ [text (document (pt_buffer ?mid))],
             pt_buffer := insert_text (NL # ''    '') (pt_buffer ?mid)\<rparr>"
    by blast
  ultimately show ?thesis
    by (simp add: init_shell_def insert_text_def Let_def)
qed




subsection \<open>The loop of interact\<close>

text \<open>
  C5.  When \<open>wait_for_kernel\<close> returns false, \<open>interact\<close> writes the diagnostic
  \<open>Kernel did not respond\<close> to the error stream and returns at once: the loop is never
  entered, so nothing is dispatched and no key is read.
\<close>

theorem kernel_timeout_exits:
  "interact c False s = Finished (s\<lparr>stderr := stderr s @ ''Kernel did not respond\<newline>\<newline>''\<rparr>) \<and>
   dispatched (s\<lparr>stderr := stderr s @ ''Kernel did not respond\<newline>\<newline>''\<rparr>) = dispatched s \<and>
   keys (s\<lparr>stderr := stderr s @ ''Kernel did not respond\<newline>\<newline>''\<rparr>) = keys s"
  by (simp add: interact_def)

text \<open>
  C9.  When the read of an iteration returns a document, whatever its text (the empty
  text included), the read has dispatched nothing, and the calls of \<open>run_cell\<close> that the
  loop makes from this iteration on, as its final state has logged them, begin with
  \<open>run_cell(document.text, store_history=True)\<close>, made once and followed by the calls of
  the loop as it goes on from the next iteration.
\<close>

theorem returned_unit_dispatched_once:
  assumes "keep_running s"
    and "pt_cli_run c pre_prompt (s\<lparr>stdout := stdout s @ [NL]\<rparr>) = (Returned (Some d), s1)"
  shows "dispatched s1 = dispatched s \<and>
         interact_loop c s = interact_loop c (s1\<lparr>dispatched := dispatched s @ [(text d, True)]\<rparr>) \<and>
         dispatched (state_of (interact_loop c s)) = dispatched s @ loop_dispatches c s \<and>
         loop_dispatches c s =
           (text d, True) # loop_dispatches c (s1\<lparr>dispatched := dispatched s @ [(text d, True)]\<rparr>)"
proof -
  have d: "dispatched s1 = dispatched s"
    using pt_cli_run_frame [OF assms(2)] by simp
  have "interact_loop c s = interact_loop c (run_cell (text d) True s1)"
    using assms by (rule interact_loop_returned)
  with d have l: "interact_loop c s = interact_loop c (s1\<lparr>dispatched := dispatched s @ [(text d, True)]\<rparr>)"
    by (simp add: run_cell_def)
  have "loop_dispatches c s =
      [(text d, True)] @ loop_dispatches c (s1\<lparr>dispatched := dispatched s @ [(text d, True)]\<rparr>)"
    using l by (rule loop_dispatches_step) simp
  with d l show ?thesis by (simp add: interact_loop_dispatched)
qed

theorem returned_unit_dispatched_once_witness:
  "interact_loop (\<lambda>t. (''complete'', None)) (init_shell [ControlJ] []) =
     Waiting ((init_shell [] [])\<lparr>checked := [''''], dispatched := [('''', True)], stdout := [NL, NL]\<rparr>) \<and>
   loop_dispatches (\<lambda>t. (''complete'', None)) (init_shell [ControlJ] []) = [('''', True)]"
proof -
  let ?c = "\<lambda>t :: string. (''complete'', None :: int option)"
  let ?init = "init_shell [ControlJ] []"
  let ?d = "\<lparr>text = [], cursor_position = 0\<rparr>"
  let ?after = "(init_shell [] [])\<lparr>return_value := Some ?d, checked := [''''], stdout := [NL]\<rparr>"
  let ?last = "(init_shell [] [])\<lparr>checked := [''''], dispatched := [('''', True)], stdout := [NL, NL]\<rparr>"
  have 1: "keep_running ?init" by (simp add: init_shell_def)
  have 2: "pt_cli_run ?c pre_prompt (?init\<lparr>stdout := stdout ?init @ [NL]\<rparr>) = (Returned (Some ?d), ?after)"
    by (simp add: shell_defs document_defs)
  note w = returned_unit_dispatched_once [OF 1 2]
  have n: "interact_loop ?c (?after\<lparr>dispatched := dispatched ?init @ [(text ?d, True)]\<rparr>) = Waiting ?last"
    by (subst interact_loop.simps) (simp add: shell_defs)
  from w have "interact_loop ?c ?init =
      interact_loop ?c (?after\<lparr>dispatched := dispatched ?init @ [(text ?d, True)]\<rparr>)"
    by blast
  with n have a: "interact_loop ?c ?init = Waiting ?last" by simp
  from w have "loop_dispatches ?c ?init = (text ?d, True) #
      loop_dispatches ?c (?after\<lparr>dispatched := dispatched ?init @ [(text ?d, True)]\<rparr>)"
    by blast
  moreover have "loop_dispatches ?c (?after\<lparr>dispatched := dispatched ?init @ [(text ?d, True)]\<rparr>) = []"
    unfolding loop_dispatches_def n by (simp add: init_shell_def)
  ultimately have b: "loop_dispatches ?c ?init = [('''', True)]" by simp
  from a b show ?thesis by simp
qed

text \<open>
  C6.  When the read of an iteration ends with \<open>EOFError\<close>, the shell asks
  \<open>Do you really want to exit ([y]/n)?\<close> once, with the default \<open>y\<close>.  On the answer
  yes, \<open>keep_running\<close> is cleared and \<open>interact\<close> returns without a further read or
  dispatch; on the answer no, the loop goes on prompting.  Nothing is dispatched for
  this read either way.
\<close>

theorem end_of_input_asks_to_exit:
  assumes "keep_running s"
    and "pt_cli_run c pre_prompt (s\<lparr>stdout := stdout s @ [NL]\<rparr>) = (Raised_EOFError, s1)"
    and "answers s1 = a # rest"
  shows "asked s1 = asked s \<and> dispatched s1 = dispatched s \<and>
         interact_loop c s =
           (if a
            then Finished (s1\<lparr>asked := asked s @ [(''Do you really want to exit ([y]/n)?'', ''y'', ''n'')],
                             answers := rest, keep_running := False\<rparr>)
            else interact_loop c (s1\<lparr>asked := asked s @ [(''Do you really want to exit ([y]/n)?'', ''y'', ''n'')],
                             answers := rest\<rparr>)) \<and>
         keep_running s1"
proof -
  let ?q = "(''Do you really want to exit ([y]/n)?'', ''y'', ''n'')"
  have f: "asked s1 = asked s" "dispatched s1 = dispatched s" "keep_running s1 = keep_running s"
    using pt_cli_run_frame [OF assms(2)] by simp_all
  have l: "interact_loop c s =
     interact_loop c
       (if a then ask_exit (s1\<lparr>asked := asked s1 @ [?q], answers := rest\<rparr>)
        else s1\<lparr>asked := asked s1 @ [?q], answers := rest\<rparr>)"
    using assms by (rule interact_loop_eof)
  show ?thesis
  proof (cases a)
    case True
    with l have "interact_loop c s = Finished (ask_exit (s1\<lparr>asked := asked s1 @ [?q], answers := rest\<rparr>))"
      by (simp add: interact_loop_stopped ask_exit_def)
    with True f assms(1) show ?thesis by (simp add: ask_exit_def)
  next
    case False
    with l f assms(1) show ?thesis by simp
  qed
qed

theorem end_of_input_asks_to_exit_witness:
  "interact_loop (\<lambda>t. (''complete'', None)) (init_shell [EndOfInput, EndOfInput, Typed ''x''] [False, True]) =
     Finished ((init_shell [Typed ''x''] [])
       \<lparr>keep_running := False,
        asked := [(''Do you really want to exit ([y]/n)?'', ''y'', ''n''),
                  (''Do you really want to exit ([y]/n)?'', ''y'', ''n'')],
        stdout := [NL, NL]\<rparr>)"
proof -
  let ?c = "\<lambda>t :: string. (''complete'', None :: int option)"
  let ?q = "(''Do you really want to exit ([y]/n)?'', ''y'', ''n'')"
  let ?init = "init_shell [EndOfInput, EndOfInput, Typed ''x''] [False, True]"
  let ?one = "(init_shell [EndOfInput, Typed ''x''] [False, True])\<lparr>stdout := [NL]\<rparr>"
  let ?mid = "(init_shell [EndOfInput, Typed ''x''] [True])\<lparr>asked := [?q], stdout := [NL]\<rparr>"
  let ?two = "(init_shell [Typed ''x''] [True])\<lparr>asked := [?q], stdout := [NL, NL]\<rparr>"
  have 1: "keep_running ?init" by (simp add: init_shell_def)
  have 2: "pt_cli_run ?c pre_prompt (?init\<lparr>stdout := stdout ?init @ [NL]\<rparr>) = (Raised_EOFError, ?one)"
    by (simp add: shell_defs)
  have 3: "answers ?one = False # [True]" by (simp add: init_shell_def)
  from end_of_input_asks_to_exit [OF 1 2 3]
  have "interact_loop ?c ?init = interact_loop ?c ?mid"
    by (simp add: init_shell_def)
  moreover
  have 4: "keep_running ?mid" by (simp add: init_shell_def)
  have 5: "pt_cli_run ?c pre_prompt (?mid\<lparr>stdout := stdout ?mid @ [NL]\<rparr>) = (Raised_EOFError, ?two)"
    by (simp add: shell_defs)
  have 6: "answers ?two = True # []" by (simp add: init_shell_def)
  from end_of_input_asks_to_exit [OF 4 5 6]
  have "interact_loop ?c ?mid = Finished ((init_shell [Typed ''x''] [])
       \<lparr>keep_running := False, asked := [?q, ?q], stdout := [NL, NL]\<rparr>)"
    by (simp add: init_shell_def)
  ultimately show ?thesis by simp
qed

subsection \<open>The pending next input\<close>

text \<open>
  C10.  \<open>pre_prompt\<close> with a non-empty \<open>rl_next_input\<close> makes it the text of the buffer
  and sets the slot to \<open>None\<close>; with \<open>None\<close> or the empty string it changes nothing.
  \<open>pt_cli.run\<close> calls it before it handles the first key of the read.
\<close>

theorem pre_prompt_next_input:
  "(rl_next_input s = Some v \<and> v \<noteq> [] \<longrightarrow>
      text (document (pt_buffer (pre_prompt s))) = v \<and> rl_next_input (pre_prompt s) = None) \<and>
   (rl_next_input s = None \<or> rl_next_input s = Some [] \<longrightarrow> pre_prompt s = s) \<and>
   pt_cli_run c pre_prompt s =
     event_loop c (keys s) (pre_prompt (s\<lparr>pt_buffer := reset (pt_buffer s), return_value := None\<rparr>))"
proof -
  have "rl_next_input s = Some v \<and> v \<noteq> [] \<longrightarrow>
      text (document (pt_buffer (pre_prompt s))) = v \<and> rl_next_input (pre_prompt s) = None"
    by (simp add: pre_prompt_def)
  moreover have "rl_next_input s = None \<or> rl_next_input s = Some [] \<longrightarrow> pre_prompt s = s"
    by (auto simp: pre_prompt_def)
  moreover have "pt_cli_run c pre_prompt s =
     event_loop c (keys s) (pre_prompt (s\<lparr>pt_buffer := reset (pt_buffer s), return_value := None\<rparr>))"
    by (simp add: pt_cli_run_def Let_def pre_prompt_frame)
  ultimately show ?thesis by blast
qed

theorem pre_prompt_next_input_witness:
  "text (document (pt_buffer (pre_prompt ((init_shell [] [])\<lparr>rl_next_input := Some ''x = 1''\<rparr>)))) = ''x = 1'' \<and>
   rl_next_input (pre_prompt ((init_shell [] [])\<lparr>rl_next_input := Some ''x = 1''\<rparr>)) = None \<and>
   pre_prompt (init_shell [] []) = init_shell [] [] \<and>
   pre_prompt ((init_shell [] [])\<lparr>rl_next_input := Some []\<rparr>) = (init_shell [] [])\<lparr>rl_next_input := Some []\<rparr>"
  using pre_prompt_next_input [of "(init_shell [] [])\<lparr>rl_next_input := Some ''x = 1''\<rparr>" "''x = 1''"]
    pre_prompt_next_input [of "init_shell [] []"]
    pre_prompt_next_input [of "(init_shell [] [])\<lparr>rl_next_input := Some []\<rparr>"]
  by (simp add: init_shell_def)

end
